theory Spec2Isabelle
  imports Main "HOL-Library.AList"
begin

section \<open>Python values\<close>

text \<open>
  The program of \<^verbatim>\<open>src/index.py\<close> handles decoded JSON documents: the envelope that
  \<^verbatim>\<open>response.json()\<close> gives, the value that \<^verbatim>\<open>json.loads(result_text)\<close> gives, and
  the dictionaries the function builds itself. A Python \<^verbatim>\<open>str\<close> is represented by its
  UTF-8 bytes, so an ASCII literal of the source is the same literal here. A \<^verbatim>\<open>dict\<close> is
  an association list in insertion order, a \<^verbatim>\<open>list\<close> a list, \<^verbatim>\<open>None\<close> is \<open>JNull\<close>. An
  \<^verbatim>\<open>int\<close> is unbounded; a \<^verbatim>\<open>float\<close> is kept as the literal it was read from.
\<close>

datatype json =
    JNull
  | JBool bool
  | JInt int
  | JFloat string
  | JStr string
  | JArr "json list"
  | JObj "(string \<times> json) list"

text \<open>
  The exceptions that the code of \<^verbatim>\<open>predict_disease_with_gemini\<close> can meet.
  \<open>RequestsJSONDecodeError\<close> is \<^verbatim>\<open>requests.exceptions.JSONDecodeError\<close>, raised by
  \<^verbatim>\<open>response.json()\<close> on a body that is not JSON (requests 2.27 and later): it inherits
  from both \<^verbatim>\<open>RequestException\<close> and \<^verbatim>\<open>json.JSONDecodeError\<close>. \<open>JSONDecodeError\<close> is
  \<^verbatim>\<open>json.JSONDecodeError\<close> itself; \<^verbatim>\<open>ValueError\<close>, its base class, is not an instance of
  it.
\<close>

datatype pyexn =
    ConnectionError
  | Timeout
  | HTTPError
  | RequestsJSONDecodeError
  | JSONDecodeError
  | RecursionError
  | ValueError
  | UnicodeEncodeError
  | UnboundLocalError
  | AttributeError
  | IndexError
  | KeyError
  | TypeError

fun is_RequestException :: "pyexn \<Rightarrow> bool" where
  "is_RequestException ConnectionError = True"
| "is_RequestException Timeout = True"
| "is_RequestException HTTPError = True"
| "is_RequestException RequestsJSONDecodeError = True"
| "is_RequestException _ = False"

fun is_JSONDecodeError :: "pyexn \<Rightarrow> bool" where
  "is_JSONDecodeError RequestsJSONDecodeError = True"
| "is_JSONDecodeError JSONDecodeError = True"
| "is_JSONDecodeError _ = False"

text \<open>Sequencing of two steps of which the first may raise.\<close>

fun and_then :: "pyexn + 'a \<Rightarrow> ('a \<Rightarrow> pyexn + 'b) \<Rightarrow> pyexn + 'b" where
  "and_then (Inl e) f = Inl e"
| "and_then (Inr x) f = f x"

section \<open>The decoder \<^verbatim>\<open>json.loads\<close>\<close>

text \<open>
  \<^verbatim>\<open>json.loads\<close> belongs to the Python standard library. It is modelled here after
  CPython's decoder (\<^verbatim>\<open>json/decoder.py\<close>, \<^verbatim>\<open>json/scanner.py\<close> and their C
  accelerator), in strict mode: the JSON grammar, with the literals \<^verbatim>\<open>NaN\<close>,
  \<^verbatim>\<open>Infinity\<close> and \<^verbatim>\<open>-Infinity\<close> that CPython accepts, and duplicate keys resolved as
  a \<^verbatim>\<open>dict\<close> does. The decoder reads the text from left to right and raises at the
  first place where it cannot go on: \<^verbatim>\<open>json.JSONDecodeError\<close> where the text is not
  JSON, \<^verbatim>\<open>ValueError\<close> at an integer literal of more than 4300 digits (the limit of
  \<^verbatim>\<open>int\<close> on strings), \<^verbatim>\<open>RecursionError\<close> where it enters an array or an object and
  the interpreter has no recursion depth left.
\<close>

definition is_ws :: "char \<Rightarrow> bool" where
  "is_ws c = (c = CHR 0x20 \<or> c = CHR 0x09 \<or> c = CHR 0x0A \<or> c = CHR 0x0D)"

definition skip_ws :: "string \<Rightarrow> string" where
  "skip_ws s = dropWhile is_ws s"

definition is_digit :: "char \<Rightarrow> bool" where
  "is_digit c = (48 \<le> (of_char c :: nat) \<and> (of_char c :: nat) \<le> 57)"

definition digit_val :: "char \<Rightarrow> int" where
  "digit_val c = int (of_char c) - 48"

definition digits_to_int :: "string \<Rightarrow> int" where
  "digits_to_int ds = foldl (\<lambda>a d. 10 * a + digit_val d) 0 ds"

definition hex_val :: "char \<Rightarrow> nat option" where
  "hex_val c =
     (let n = (of_char c :: nat) in
      if 48 \<le> n \<and> n \<le> 57 then Some (n - 48)
      else if 65 \<le> n \<and> n \<le> 70 then Some (n - 55)
      else if 97 \<le> n \<and> n \<le> 102 then Some (n - 87)
      else None)"

text \<open>Four hexadecimal digits of a \<^verbatim>\<open>\uXXXX\<close> escape, and what follows them.\<close>

definition hex4 :: "string \<Rightarrow> (nat \<times> string) option" where
  "hex4 s =
     (case s of
        a # b # c # d # r \<Rightarrow>
          (case (hex_val a, hex_val b, hex_val c, hex_val d) of
             (Some x, Some y, Some z, Some w) \<Rightarrow> Some (((x * 16 + y) * 16 + z) * 16 + w, r)
           | _ \<Rightarrow> None)
      | _ \<Rightarrow> None)"

text \<open>The UTF-8 bytes of a code point (a lone surrogate is encoded like any other).\<close>

definition utf8_encode :: "nat \<Rightarrow> string" where
  "utf8_encode cp =
     (if cp < 0x80 then [char_of cp]
      else if cp < 0x800 then [char_of (0xC0 + cp div 64), char_of (0x80 + cp mod 64)]
      else if cp < 0x10000 then
        [char_of (0xE0 + cp div 4096), char_of (0x80 + cp div 64 mod 64),
         char_of (0x80 + cp mod 64)]
      else
        [char_of (0xF0 + cp div 262144), char_of (0x80 + cp div 4096 mod 64),
         char_of (0x80 + cp div 64 mod 64), char_of (0x80 + cp mod 64)])"

text \<open>
  A \<^verbatim>\<open>\uXXXX\<close> escape, read after the \<^verbatim>\<open>\u\<close>: a high surrogate followed by the escape
  of a low surrogate is one code point.
\<close>

definition unicode_escape :: "string \<Rightarrow> (nat \<times> string) option" where
  "unicode_escape s =
     (case hex4 s of
        None \<Rightarrow> None
      | Some (hi, r) \<Rightarrow>
          if 0xD800 \<le> hi \<and> hi \<le> 0xDBFF then
            (case r of
               b # u # r' \<Rightarrow>
                 if b = CHR 0x5C \<and> u = CHR ''u'' then
                   (case hex4 r' of
                      None \<Rightarrow> None
                    | Some (lo, r'') \<Rightarrow>
                        if 0xDC00 \<le> lo \<and> lo \<le> 0xDFFF
                        then Some (0x10000 + (hi - 0xD800) * 0x400 + (lo - 0xDC00), r'')
                        else Some (hi, r))
                 else Some (hi, r)
             | _ \<Rightarrow> Some (hi, r))
          else Some (hi, r))"

definition simple_escape :: "char \<Rightarrow> char option" where
  "simple_escape c =
     (if c = CHR 0x22 then Some (CHR 0x22)
      else if c = CHR 0x5C then Some (CHR 0x5C)
      else if c = CHR ''/'' then Some (CHR ''/'')
      else if c = CHR ''b'' then Some (CHR 0x08)
      else if c = CHR ''f'' then Some (CHR 0x0C)
      else if c = CHR ''n'' then Some (CHR 0x0A)
      else if c = CHR ''r'' then Some (CHR 0x0D)
      else if c = CHR ''t'' then Some (CHR 0x09)
      else None)"

text \<open>
  \<^verbatim>\<open>scanstring\<close>, from the character after the opening quote: the decoded string and
  what follows the closing quote.
\<close>

function scanstring :: "string \<Rightarrow> (string \<times> string) option" where
  "scanstring [] = None"
| "scanstring (c # cs) =
     (if c = CHR 0x22 then Some ([], cs)
      else if c = CHR 0x5C then
        (case cs of
           [] \<Rightarrow> None
         | e # r \<Rightarrow>
             if e = CHR ''u'' then
               (case unicode_escape r of
                  None \<Rightarrow> None
                | Some (cp, r') \<Rightarrow>
                    (case scanstring r' of
                       None \<Rightarrow> None
                     | Some (t, r'') \<Rightarrow> Some (utf8_encode cp @ t, r'')))
             else
               (case simple_escape e of
                  None \<Rightarrow> None
                | Some x \<Rightarrow>
                    (case scanstring r of
                       None \<Rightarrow> None
                     | Some (t, r'') \<Rightarrow> Some (x # t, r''))))
      else if (of_char c :: nat) < 0x20 then None
      else
        (case scanstring cs of
           None \<Rightarrow> None
         | Some (t, r) \<Rightarrow> Some (c # t, r)))"
  by pat_completeness auto
termination
  by (relation "measure length")
    (auto simp: unicode_escape_def hex4_def split: list.splits option.splits if_splits)

text \<open>\<^verbatim>\<open>s.startswith(p)\<close>, giving what follows the prefix.\<close>

fun strip_prefix :: "string \<Rightarrow> string \<Rightarrow> string option" where
  "strip_prefix [] s = Some s"
| "strip_prefix (p # ps) [] = None"
| "strip_prefix (p # ps) (c # cs) = (if p = c then strip_prefix ps cs else None)"

text \<open>
  The number pattern of the scanner: an optional minus sign, \<^verbatim>\<open>0\<close> or a digit from 1 to
  9 followed by digits, then an optional fraction (a point and at least one digit) and
  an optional exponent. Without fraction and exponent the number is an \<^verbatim>\<open>int\<close>.
\<close>

definition scan_fraction :: "string \<Rightarrow> string \<times> string" where
  "scan_fraction s =
     (case s of
        p # d # r \<Rightarrow>
          if p = CHR ''.'' \<and> is_digit d
          then (p # d # takeWhile is_digit r, dropWhile is_digit r)
          else ([], s)
      | _ \<Rightarrow> ([], s))"

definition scan_exponent :: "string \<Rightarrow> string \<times> string" where
  "scan_exponent s =
     (case s of
        [] \<Rightarrow> ([], s)
      | e # r \<Rightarrow>
          if e = CHR ''e'' \<or> e = CHR ''E'' then
            (let sg = (case r of
                         [] \<Rightarrow> []
                       | x # _ \<Rightarrow> if x = CHR ''+'' \<or> x = CHR ''-'' then [x] else []);
                 r' = drop (length sg) r
             in case r' of
                  [] \<Rightarrow> ([], s)
                | d # _ \<Rightarrow>
                    if is_digit d
                    then (e # sg @ takeWhile is_digit r', dropWhile is_digit r')
                    else ([], s))
          else ([], s))"

definition int_max_str_digits :: nat where
  "int_max_str_digits = 4300"

definition match_number :: "string \<Rightarrow> pyexn + json \<times> string" where
  "match_number s =
     (let sg = (case s of [] \<Rightarrow> [] | x # _ \<Rightarrow> if x = CHR ''-'' then [x] else []);
          s1 = drop (length sg) s
      in case s1 of
           [] \<Rightarrow> Inl JSONDecodeError
         | c # r \<Rightarrow>
             if \<not> is_digit c then Inl JSONDecodeError
             else
               (let ds = (if c = CHR ''0'' then [c] else c # takeWhile is_digit r);
                    r1 = (if c = CHR ''0'' then r else dropWhile is_digit r);
                    (frac, r2) = scan_fraction r1;
                    (ex, r3) = scan_exponent r2
                in if frac = [] \<and> ex = []
                   then if int_max_str_digits < length ds then Inl ValueError
                        else Inr (JInt ((if sg = [] then 1 else - 1) * digits_to_int ds), r3)
                   else Inr (JFloat (sg @ ds @ frac @ ex), r3)))"

text \<open>
  A value that is no array and no object, at the head of the text: a string, one of
  the literals, or a number, tried in the order of the scanner.
\<close>

definition scan_atom :: "string \<Rightarrow> pyexn + json \<times> string" where
  "scan_atom s =
     (case s of
        [] \<Rightarrow> Inl JSONDecodeError
      | c # r \<Rightarrow>
          if c = CHR 0x22 then
            (case scanstring r of
               None \<Rightarrow> Inl JSONDecodeError
             | Some (t, r') \<Rightarrow> Inr (JStr t, r'))
          else
            (case strip_prefix ''null'' s of
               Some r' \<Rightarrow> Inr (JNull, r')
             | None \<Rightarrow>
            (case strip_prefix ''true'' s of
               Some r' \<Rightarrow> Inr (JBool True, r')
             | None \<Rightarrow>
            (case strip_prefix ''false'' s of
               Some r' \<Rightarrow> Inr (JBool False, r')
             | None \<Rightarrow>
            (case strip_prefix ''NaN'' s of
               Some r' \<Rightarrow> Inr (JFloat ''NaN'', r')
             | None \<Rightarrow>
            (case strip_prefix ''Infinity'' s of
               Some r' \<Rightarrow> Inr (JFloat ''Infinity'', r')
             | None \<Rightarrow>
            (case strip_prefix ''-Infinity'' s of
               Some r' \<Rightarrow> Inr (JFloat ''-Infinity'', r')
             | None \<Rightarrow> match_number s)))))))"

text \<open>
  The scanner. \<open>scan_once\<close> reads one value at the head of the text; \<open>parse_array\<close>
  reads the elements of an array from its first element on, \<open>parse_object\<close> the
  members of an object from the quote of its first key on. \<open>depth\<close> is the recursion
  depth that the interpreter has left: entering an array or an object takes one level,
  and raises \<^verbatim>\<open>RecursionError\<close> when none is left. The first argument makes the
  definition a structural recursion; \<open>json_loads\<close> starts with more than a text of that
  length can need.
\<close>

fun scan_once :: "nat \<Rightarrow> nat \<Rightarrow> string \<Rightarrow> pyexn + json \<times> string"
  and parse_array :: "nat \<Rightarrow> nat \<Rightarrow> string \<Rightarrow> json list \<Rightarrow> pyexn + json \<times> string"
  and parse_object ::
    "nat \<Rightarrow> nat \<Rightarrow> string \<Rightarrow> (string \<times> json) list \<Rightarrow> pyexn + json \<times> string"
where
  "scan_once 0 depth s = Inl JSONDecodeError"
| "scan_once (Suc n) depth s =
     (case s of
        [] \<Rightarrow> Inl JSONDecodeError
      | c # r \<Rightarrow>
          if c = CHR ''{'' then
            if depth = 0 then Inl RecursionError
            else
              (case skip_ws r of
                 [] \<Rightarrow> Inl JSONDecodeError
               | x # r' \<Rightarrow>
                   if x = CHR ''}'' then Inr (JObj [], r')
                   else parse_object n (depth - 1) (x # r') [])
          else if c = CHR ''['' then
            if depth = 0 then Inl RecursionError
            else
              (case skip_ws r of
                 [] \<Rightarrow> Inl JSONDecodeError
               | x # r' \<Rightarrow>
                   if x = CHR '']'' then Inr (JArr [], r')
                   else parse_array n (depth - 1) (x # r') [])
          else scan_atom s)"
| "parse_array 0 depth s acc = Inl JSONDecodeError"
| "parse_array (Suc n) depth s acc =
     (case scan_once n depth s of
        Inl e \<Rightarrow> Inl e
      | Inr (v, r) \<Rightarrow>
          (case skip_ws r of
             [] \<Rightarrow> Inl JSONDecodeError
           | x # r' \<Rightarrow>
               if x = CHR '']'' then Inr (JArr (acc @ [v]), r')
               else if x = CHR '','' then parse_array n depth (skip_ws r') (acc @ [v])
               else Inl JSONDecodeError))"
| "parse_object 0 depth s acc = Inl JSONDecodeError"
| "parse_object (Suc n) depth s acc =
     (case s of
        [] \<Rightarrow> Inl JSONDecodeError
      | q # r \<Rightarrow>
          if q \<noteq> CHR 0x22 then Inl JSONDecodeError
          else
            (case scanstring r of
               None \<Rightarrow> Inl JSONDecodeError
             | Some (k, r1) \<Rightarrow>
                 (case skip_ws r1 of
                    [] \<Rightarrow> Inl JSONDecodeError
                  | colon # r2 \<Rightarrow>
                      if colon \<noteq> CHR '':'' then Inl JSONDecodeError
                      else
                        (case scan_once n depth (skip_ws r2) of
                           Inl e \<Rightarrow> Inl e
                         | Inr (v, r3) \<Rightarrow>
                             (case skip_ws r3 of
                                [] \<Rightarrow> Inl JSONDecodeError
                              | x # r4 \<Rightarrow>
                                  if x = CHR ''}'' then Inr (JObj (AList.update k v acc), r4)
                                  else if x = CHR '','' then
                                    parse_object n depth (skip_ws r4) (AList.update k v acc)
                                  else Inl JSONDecodeError)))))"

text \<open>
  \<^verbatim>\<open>json.loads(s)\<close> on a string, when the interpreter has the recursion depth \<open>depth\<close>
  left: the value, or the exception. Only white space may follow the value.
\<close>

definition json_loads :: "nat \<Rightarrow> string \<Rightarrow> pyexn + json" where
  "json_loads depth s =
     (case scan_once (2 * length s + 2) depth (skip_ws s) of
        Inl e \<Rightarrow> Inl e
      | Inr (v, r) \<Rightarrow> if skip_ws r = [] then Inr v else Inl JSONDecodeError)"

section \<open>The transport\<close>

text \<open>
  What one call of \<^verbatim>\<open>requests.post\<close> yields: a connection error, a timeout, or a
  response with its status code and with what \<^verbatim>\<open>response.json()\<close> gives on its body,
  the decoded body or the exception (\<^verbatim>\<open>requests.exceptions.JSONDecodeError\<close> on a body
  that is not JSON). The source passes no timeout to \<^verbatim>\<open>requests.post\<close>; a call that
  never returns is outside the model.
\<close>

datatype http_outcome =
    ConnectionFailed
  | TimedOut
  | Response nat "pyexn + json"

text \<open>\<^verbatim>\<open>response.raise_for_status()\<close> raises on the status codes 400 to 599.\<close>

definition raise_for_status :: "nat \<Rightarrow> pyexn + unit" where
  "raise_for_status code = (if 400 \<le> code \<and> code < 600 then Inl HTTPError else Inr ())"

section \<open>The envelope\<close>

text \<open>\<^verbatim>\<open>d.get(key, default)\<close>: only a \<^verbatim>\<open>dict\<close> has the method.\<close>

fun py_get :: "json \<Rightarrow> string \<Rightarrow> json \<Rightarrow> pyexn + json" where
  "py_get (JObj kvs) k d = Inr (case map_of kvs k of None \<Rightarrow> d | Some v \<Rightarrow> v)"
| "py_get _ k d = Inl AttributeError"

definition is_continuation :: "char \<Rightarrow> bool" where
  "is_continuation c = (0x80 \<le> (of_char c :: nat) \<and> (of_char c :: nat) < 0xC0)"

text \<open>
  \<^verbatim>\<open>x[0]\<close>: the first element of a list, the first character of a string; the key 0,
  which no decoded JSON object has, of a \<^verbatim>\<open>dict\<close>; no other value can be subscripted.
\<close>

fun subscript0 :: "json \<Rightarrow> pyexn + json" where
  "subscript0 (JArr []) = Inl IndexError"
| "subscript0 (JArr (x # xs)) = Inr x"
| "subscript0 (JStr []) = Inl IndexError"
| "subscript0 (JStr (c # cs)) = Inr (JStr (c # takeWhile is_continuation cs))"
| "subscript0 (JObj kvs) = Inl KeyError"
| "subscript0 _ = Inl TypeError"

text \<open>
  \<^verbatim>\<open>response.json().get('candidates', [{}])[0].get('content', {}).get('parts', [{}])[0].get('text', '{}')\<close>
\<close>

definition result_text :: "json \<Rightarrow> pyexn + json" where
  "result_text envelope =
     and_then (py_get envelope ''candidates'' (JArr [JObj []])) (\<lambda>candidates.
     and_then (subscript0 candidates) (\<lambda>candidate.
     and_then (py_get candidate ''content'' (JObj [])) (\<lambda>content.
     and_then (py_get content ''parts'' (JArr [JObj []])) (\<lambda>parts.
     and_then (subscript0 parts) (\<lambda>part.
     py_get part ''text'' (JStr ''{}''))))))"

text \<open>
  The first three statements of the \<^verbatim>\<open>try\<close> block, on what the call of
  \<^verbatim>\<open>requests.post\<close> yielded: the value assigned to \<^verbatim>\<open>result_text\<close>.
\<close>

fun assign_result_text :: "http_outcome \<Rightarrow> pyexn + json" where
  "assign_result_text ConnectionFailed = Inl ConnectionError"
| "assign_result_text TimedOut = Inl Timeout"
| "assign_result_text (Response code body) =
     and_then (raise_for_status code) (\<lambda>_.
     and_then body result_text)"

text \<open>
  \<^verbatim>\<open>json.loads(x)\<close> on a value of any type: only a string is decoded.
\<close>

fun loads :: "nat \<Rightarrow> json \<Rightarrow> pyexn + json" where
  "loads depth (JStr t) = json_loads depth t"
| "loads depth _ = Inl TypeError"

text \<open>
  A string holds a surrogate code point: in UTF-8 these are the sequences that start
  with the bytes \<open>0xED\<close> and \<open>0xA0\<close> to \<open>0xBF\<close>.
\<close>

fun has_surrogate :: "string \<Rightarrow> bool" where
  "has_surrogate (a # b # cs) =
     (a = CHR 0xED \<and> 0xA0 \<le> (of_char b :: nat) \<and> (of_char b :: nat) \<le> 0xBF \<or>
      has_surrogate (b # cs))"
| "has_surrogate _ = False"

text \<open>
  \<^verbatim>\<open>print(f"... {e}. Response was: {result_text}")\<close> in the handler of
  \<^verbatim>\<open>json.JSONDecodeError\<close>, on the value of the local variable \<^verbatim>\<open>result_text\<close> where
  it is bound. The standard output encodes UTF-8, as Python has it by default: a
  string with a surrogate cannot be written. (The other \<^verbatim>\<open>print\<close> of the function
  writes the message of a \<^verbatim>\<open>RequestException\<close>, which holds no surrogate.)
\<close>

fun print_result_text :: "json option \<Rightarrow> pyexn + unit" where
  "print_result_text None = Inl UnboundLocalError"
| "print_result_text (Some (JStr t)) =
     (if has_surrogate t then Inl UnicodeEncodeError else Inr ())"
| "print_result_text (Some _) = Inr ()"

section \<open>\<^verbatim>\<open>predict_disease_with_gemini\<close>\<close>

text \<open>
  The body of the \<^verbatim>\<open>try\<close> block: what it gives or raises, and the value of
  \<^verbatim>\<open>result_text\<close> where it was assigned.
\<close>

definition try_body :: "nat \<Rightarrow> http_outcome \<Rightarrow> (pyexn + json) \<times> json option" where
  "try_body depth out =
     (case assign_result_text out of
        Inl e \<Rightarrow> (Inl e, None)
      | Inr text \<Rightarrow> (loads depth text, Some text))"

definition parse_error_result :: json where
  "parse_error_result =
     JObj [(''predicted_disease'', JStr ''Error''),
           (''description'',
            JStr ''Failed to parse API response. The model may have returned an invalid format.''),
           (''precautions'', JArr []),
           (''home_remedies'', JArr []),
           (''language'', JStr ''English'')]"

definition connect_error_result :: json where
  "connect_error_result =
     JObj [(''predicted_disease'', JStr ''Error''),
           (''description'',
            JStr ''Failed to connect to the prediction service after multiple retries.''),
           (''precautions'', JArr []),
           (''home_remedies'', JArr []),
           (''language'', JStr ''English'')]"

definition max_retries :: nat where
  "max_retries = 3"

text \<open>
  What the function does to the world, in order: a call of \<^verbatim>\<open>requests.post\<close>, a
  \<^verbatim>\<open>time.sleep(delay)\<close>.
\<close>

datatype event = Post | Sleep nat

definition attempts :: "event list \<Rightarrow> nat" where
  "attempts tr = length (filter (\<lambda>e. e = Post) tr)"

fun sleeps :: "event list \<Rightarrow> nat list" where
  "sleeps [] = []"
| "sleeps (Post # tr) = sleeps tr"
| "sleeps (Sleep d # tr) = d # sleeps tr"

text \<open>
  The \<^verbatim>\<open>while\<close> loop, with the local variables \<^verbatim>\<open>retries\<close> and \<^verbatim>\<open>delay\<close> and the
  events so far. \<open>transport k\<close> is what the call number \<open>k\<close> (from 0) of \<^verbatim>\<open>requests.post\<close>
  yields. The \<^verbatim>\<open>except\<close> clauses are tried in the order of the source; an exception that
  neither clause matches leaves the function, and so does one that the \<^verbatim>\<open>print\<close> of the
  second clause raises.
\<close>

function retry_loop ::
  "nat \<Rightarrow> (nat \<Rightarrow> http_outcome) \<Rightarrow> nat \<Rightarrow> nat \<Rightarrow> event list \<Rightarrow> (pyexn + json) \<times> event list"
where
  "retry_loop depth transport retries delay tr =
     (if retries < max_retries then
        (case try_body depth (transport (attempts tr)) of
           (Inr parsed_json, bound) \<Rightarrow> (Inr parsed_json, tr @ [Post])
         | (Inl e, bound) \<Rightarrow>
             if is_RequestException e then
               retry_loop depth transport (retries + 1) (delay * 2) (tr @ [Post, Sleep delay])
             else if is_JSONDecodeError e then
               (case print_result_text bound of
                  Inl e' \<Rightarrow> (Inl e', tr @ [Post])
                | Inr _ \<Rightarrow> (Inr parse_error_result, tr @ [Post]))
             else (Inl e, tr @ [Post]))
      else (Inr connect_error_result, tr))"
  by pat_completeness auto
termination
  by (relation "measure (\<lambda>(depth, transport, retries, delay, tr). max_retries - retries)") auto

declare retry_loop.simps [simp del]

text \<open>
  The function: what it returns or raises, and its events. \<open>depth\<close> is the recursion
  depth that the interpreter has left where the function calls \<^verbatim>\<open>json.loads\<close>;
  \<open>transport symptoms_input k\<close> is what the call number \<open>k\<close> yields when the prompt is
  built from \<open>symptoms_input\<close>.
\<close>

definition predict_disease_with_gemini ::
  "nat \<Rightarrow> (json \<Rightarrow> nat \<Rightarrow> http_outcome) \<Rightarrow> json \<Rightarrow> (pyexn + json) \<times> event list"
where
  "predict_disease_with_gemini depth transport symptoms_input =
     retry_loop depth (transport symptoms_input) 0 1 []"

section \<open>The handler of \<^verbatim>\<open>POST /predict\<close>\<close>

text \<open>
  The view function, on the decoded body of the request: \<^verbatim>\<open>request.json.get('symptoms')\<close>
  is \<^verbatim>\<open>None\<close> when the key is missing.
\<close>

definition predict ::
  "nat \<Rightarrow> (json \<Rightarrow> nat \<Rightarrow> http_outcome) \<Rightarrow> json \<Rightarrow> pyexn + json"
where
  "predict depth transport request_json =
     and_then (py_get request_json ''symptoms'' JNull) (\<lambda>symptoms.
     and_then (fst (predict_disease_with_gemini depth transport symptoms)) (\<lambda>result.
     Inr result))"

text \<open>
  What Flask sends: the value that the view function returned through \<^verbatim>\<open>jsonify\<close>,
  with status 200; status 500 and no JSON body when the view function raised.
\<close>

record http_response =
  status_code :: nat
  json_body :: "json option"

definition post_predict ::
  "nat \<Rightarrow> (json \<Rightarrow> nat \<Rightarrow> http_outcome) \<Rightarrow> json \<Rightarrow> http_response"
where
  "post_predict depth transport request_json =
     (case predict depth transport request_json of
        Inr result \<Rightarrow> \<lparr>status_code = 200, json_body = Some result\<rparr>
      | Inl e \<Rightarrow> \<lparr>status_code = 500, json_body = None\<rparr>)"

section \<open>Notions of the specification\<close>

text \<open>\<^verbatim>\<open>d[key]\<close> where the value is a \<^verbatim>\<open>dict\<close> that has the key.\<close>

fun field :: "json \<Rightarrow> string \<Rightarrow> json option" where
  "field (JObj kvs) k = map_of kvs k"
| "field _ k = None"



text \<open>
  A failure of the transport as the code has it: a connection error, a timeout, or a
  response with an error status, 400 to 599 (what \<^verbatim>\<open>requests.post\<close> and
  \<^verbatim>\<open>raise_for_status\<close> raise).
\<close>

fun transport_failure :: "http_outcome \<Rightarrow> bool" where
  "transport_failure ConnectionFailed = True"
| "transport_failure TimedOut = True"
| "transport_failure (Response code body) = (400 \<le> code \<and> code < 600)"

text \<open>The transport fails on every attempt.\<close>

definition retry_exhausted :: "(nat \<Rightarrow> http_outcome) \<Rightarrow> bool" where
  "retry_exhausted tr = list_all (\<lambda>k. transport_failure (tr k)) [0..<max_retries]"

text \<open>The decoded body of a response without an error status.\<close>

fun successful_body :: "http_outcome \<Rightarrow> json option" where
  "successful_body (Response code (Inr envelope)) =
     (if 400 \<le> code \<and> code < 600 then None else Some envelope)"
| "successful_body _ = None"

text \<open>
  The expected envelope
  \<^verbatim>\<open>{ candidates: [{ content: { parts: [{ text: <json-string> }] } }] }\<close>:
  the text of the first part of the content of the first candidate, where the envelope
  has all of these.
\<close>

fun first_item :: "json \<Rightarrow> json option" where
  "first_item (JArr (x # xs)) = Some x"
| "first_item _ = None"

fun as_text :: "json \<Rightarrow> string option" where
  "as_text (JStr t) = Some t"
| "as_text _ = None"

definition envelope_text :: "json \<Rightarrow> string option" where
  "envelope_text envelope =
     Option.bind (field envelope ''candidates'') (\<lambda>candidates.
     Option.bind (first_item candidates) (\<lambda>candidate.
     Option.bind (field candidate ''content'') (\<lambda>content.
     Option.bind (field content ''parts'') (\<lambda>parts.
     Option.bind (first_item parts) (\<lambda>part.
     Option.bind (field part ''text'') as_text)))))"

text \<open>The inner text of a successful response with a well-formed envelope.\<close>

definition inner_text :: "http_outcome \<Rightarrow> string option" where
  "inner_text out = Option.bind (successful_body out) envelope_text"

text \<open>The inner text of a response is not valid JSON: \<^verbatim>\<open>json.loads\<close> rejects it.\<close>

definition unparseable :: "nat \<Rightarrow> http_outcome \<Rightarrow> bool" where
  "unparseable depth out =
     (case inner_text out of
        None \<Rightarrow> False
      | Some t \<Rightarrow> json_loads depth t = Inl JSONDecodeError)"

text \<open>
  The inner text is not valid JSON and the handler can print it: it holds no
  surrogate.
\<close>

definition malformed_text :: "nat \<Rightarrow> http_outcome \<Rightarrow> bool" where
  "malformed_text depth out =
     (case inner_text out of
        None \<Rightarrow> False
      | Some t \<Rightarrow> json_loads depth t = Inl JSONDecodeError \<and> \<not> has_surrogate t)"

text \<open>The inner text of a response decodes to a value.\<close>

definition parses_to :: "nat \<Rightarrow> http_outcome \<Rightarrow> json \<Rightarrow> bool" where
  "parses_to depth out v =
     (case inner_text out of None \<Rightarrow> False | Some t \<Rightarrow> json_loads depth t = Inr v)"

text \<open>
  The malformed-response path: the calls before call \<open>k\<close> failed, and call \<open>k\<close> gave a
  well-formed envelope with a malformed inner text.
\<close>

definition malformed_at :: "nat \<Rightarrow> (nat \<Rightarrow> http_outcome) \<Rightarrow> nat \<Rightarrow> bool" where
  "malformed_at depth tr k =
     (k < max_retries \<and> list_all (\<lambda>j. transport_failure (tr j)) [0..<k] \<and>
      malformed_text depth (tr k))"

definition malformed_response :: "nat \<Rightarrow> (nat \<Rightarrow> http_outcome) \<Rightarrow> bool" where
  "malformed_response depth tr = list_ex (malformed_at depth tr) [0..<max_retries]"

text \<open>The five fields of a DiagnosisResult.\<close>

definition diagnosis_result_fields :: "string list" where
  "diagnosis_result_fields =
     [''predicted_disease'', ''description'', ''precautions'', ''home_remedies'', ''language'']"

definition present_and_non_null :: "json \<Rightarrow> string \<Rightarrow> bool" where
  "present_and_non_null v k = (case field v k of None \<Rightarrow> False | Some x \<Rightarrow> x \<noteq> JNull)"

fun entries :: "json option \<Rightarrow> nat option" where
  "entries (Some (JArr xs)) = Some (length xs)"
| "entries _ = None"

text \<open>
  The invariant of the specification: the five fields are present and not null, and
  either \<^verbatim>\<open>predicted_disease\<close> is not \<^verbatim>\<open>"Error"\<close> and both lists have at most four
  entries, or it is \<^verbatim>\<open>"Error"\<close> and both lists are empty.
\<close>

definition is_diagnosis_result :: "json \<Rightarrow> bool" where
  "is_diagnosis_result v =
     (list_all (present_and_non_null v) diagnosis_result_fields \<and>
      (case (entries (field v ''precautions''), entries (field v ''home_remedies'')) of
         (Some p, Some h) \<Rightarrow>
           if field v ''predicted_disease'' = Some (JStr ''Error'') then p = 0 \<and> h = 0
           else p \<le> 4 \<and> h \<le> 4
       | _ \<Rightarrow> False))"

definition returns_diagnosis_result :: "pyexn + json \<Rightarrow> bool" where
  "returns_diagnosis_result r = (case r of Inl e \<Rightarrow> False | Inr v \<Rightarrow> is_diagnosis_result v)"

text \<open>A JSON object with exactly the five fields.\<close>

fun exactly_five_fields :: "json \<Rightarrow> bool" where
  "exactly_five_fields (JObj kvs) =
     (distinct (map fst kvs) \<and> set (map fst kvs) = set diagnosis_result_fields)"
| "exactly_five_fields _ = False"

text \<open>The response that the specification promises for every request.\<close>

definition ok_with_five_fields :: "http_response \<Rightarrow> bool" where
  "ok_with_five_fields resp =
     (status_code resp = 200 \<and>
      (case json_body resp of None \<Rightarrow> False | Some v \<Rightarrow> exactly_five_fields v))"

text \<open>The \<^verbatim>\<open>language\<close> field is absent or empty.\<close>

definition language_absent_or_empty :: "json \<Rightarrow> bool" where
  "language_absent_or_empty v =
     (field v ''language'' = None \<or> field v ''language'' = Some (JStr []))"

text \<open>
  An inner text that \<^verbatim>\<open>json.loads\<close> decodes, or that it rejects as not valid JSON and
  that the handler can print: the decoder does not run into a limit of the interpreter.
\<close>

definition decodes_or_malformed :: "nat \<Rightarrow> string \<Rightarrow> bool" where
  "decodes_or_malformed depth t =
     (case json_loads depth t of
        Inr v \<Rightarrow> True
      | Inl e \<Rightarrow> e = JSONDecodeError \<and> \<not> has_surrogate t)"

text \<open>
  A well-formed response: the call fails in the transport, or it answers with a
  well-formed envelope and such an inner text.
\<close>

definition well_formed_response :: "nat \<Rightarrow> http_outcome \<Rightarrow> bool" where
  "well_formed_response depth out =
     (transport_failure out \<or>
      (case inner_text out of None \<Rightarrow> False | Some t \<Rightarrow> decodes_or_malformed depth t))"

definition well_formed_transport :: "nat \<Rightarrow> (nat \<Rightarrow> http_outcome) \<Rightarrow> bool" where
  "well_formed_transport depth tr =
     list_all (\<lambda>k. well_formed_response depth (tr k)) [0..<max_retries]"

section \<open>Scenarios\<close>

text \<open>
  Transports and requests for the examples below. \<open>envelope_of t\<close> is an envelope as
  the API sends it, with the inner text \<open>t\<close>. \<open>python_depth\<close> is a recursion depth that
  an interpreter with the default limit of 1000 has left inside a request handler.
\<close>

definition python_depth :: nat where
  "python_depth = 900"

definition envelope_of :: "string \<Rightarrow> json" where
  "envelope_of t =
     JObj [(''candidates'',
            JArr [JObj [(''content'',
                         JObj [(''parts'', JArr [JObj [(''text'', JStr t)]]),
                               (''role'', JStr ''model'')]),
                        (''finishReason'', JStr ''STOP'')]])]"

definition common_cold_text :: string where
  \<open>common_cold_text =
     ''{"predicted_disease": "Common Cold", '' @
     ''"description": "A mild viral infection of the nose and throat.", '' @
     ''"precautions": ["Rest", "Hydrate", "Avoid cold exposure"], '' @
     ''"home_remedies": ["Warm fluids", "Steam inhalation", "Honey and ginger tea"], '' @
     ''"language": "English"}''\<close>

definition common_cold :: json where
  "common_cold =
     JObj [(''predicted_disease'', JStr ''Common Cold''),
           (''description'', JStr ''A mild viral infection of the nose and throat.''),
           (''precautions'', JArr [JStr ''Rest'', JStr ''Hydrate'', JStr ''Avoid cold exposure'']),
           (''home_remedies'',
            JArr [JStr ''Warm fluids'', JStr ''Steam inhalation'', JStr ''Honey and ginger tea'']),
           (''language'', JStr ''English'')]"

definition five_precautions_text :: string where
  \<open>five_precautions_text =
     ''{"predicted_disease": "Influenza", "description": "A viral infection.", '' @
     ''"precautions": ["Rest", "Hydrate", "Stay home", "Wash hands", "Wear a mask"], '' @
     ''"home_remedies": ["Warm fluids", "Steam inhalation", "Ginger tea"], '' @
     ''"language": "English"}''\<close>


text \<open>The inner text \<^verbatim>\<open>"\ud800 not json"\<close>: a lone surrogate, then words.\<close>

definition surrogate_text :: string where
  "surrogate_text = [CHR 0xED, CHR 0xA0, CHR 0x80] @ '' not json''"

definition fever_and_headache :: json where
  "fever_and_headache = JStr ''fever and headache''"

definition fever_request :: json where
  "fever_request = JObj [(''symptoms'', JStr ''fever and headache'')]"

definition empty_candidates_transport :: "json \<Rightarrow> nat \<Rightarrow> http_outcome" where
  "empty_candidates_transport symptoms k = Response 200 (Inr (JObj [(''candidates'', JArr [])]))"

definition blocked_prompt_transport :: "json \<Rightarrow> nat \<Rightarrow> http_outcome" where
  "blocked_prompt_transport symptoms k =
     Response 200 (Inr (JObj [(''promptFeedback'', JObj [(''blockReason'', JStr ''SAFETY'')])]))"

definition refusing_transport :: "json \<Rightarrow> nat \<Rightarrow> http_outcome" where
  "refusing_transport symptoms k = ConnectionFailed"

definition failing_transport :: "json \<Rightarrow> nat \<Rightarrow> http_outcome" where
  "failing_transport symptoms k =
     (if k = 0 then ConnectionFailed else if k = 1 then TimedOut
      else Response 503 (Inl RequestsJSONDecodeError))"



definition prose_transport :: "json \<Rightarrow> nat \<Rightarrow> http_outcome" where
  "prose_transport symptoms k =
     Response 200 (Inr (envelope_of ''Sorry, I can not help with that.''))"

definition surrogate_transport :: "json \<Rightarrow> nat \<Rightarrow> http_outcome" where
  "surrogate_transport symptoms k = Response 200 (Inr (envelope_of surrogate_text))"


definition common_cold_transport :: "json \<Rightarrow> nat \<Rightarrow> http_outcome" where
  "common_cold_transport symptoms k = Response 200 (Inr (envelope_of common_cold_text))"

definition five_precautions_transport :: "json \<Rightarrow> nat \<Rightarrow> http_outcome" where
  "five_precautions_transport symptoms k =
     Response 200 (Inr (envelope_of five_precautions_text))"

definition one_field_transport :: "json \<Rightarrow> nat \<Rightarrow> http_outcome" where
  \<open>one_field_transport symptoms k =
     Response 200 (Inr (envelope_of ''{"predicted_disease": "Influenza"}''))\<close>

section \<open>The steps of the loop\<close>

lemma field_get: "field x k = Some y \<Longrightarrow> py_get x k d = Inr y"
  by (cases x) auto

lemma first_item_subscript0: "first_item x = Some y \<Longrightarrow> subscript0 x = Inr y"
  by (cases x rule: first_item.cases) auto

lemma as_text_JStr: "as_text x = Some t \<Longrightarrow> x = JStr t"
  by (cases x) auto

lemma envelope_text_result_text:
  assumes "envelope_text envelope = Some t"
  shows "result_text envelope = Inr (JStr t)"
proof -
  from assms obtain candidates candidate content parts part x where
    "field envelope ''candidates'' = Some candidates" "first_item candidates = Some candidate"
    "field candidate ''content'' = Some content" "field content ''parts'' = Some parts"
    "first_item parts = Some part" "field part ''text'' = Some x" "as_text x = Some t"
    unfolding envelope_text_def by (auto simp: bind_eq_Some_conv)
  then show ?thesis
    unfolding result_text_def
    by (simp add: field_get first_item_subscript0 as_text_JStr)
qed

lemma successful_bodyD:
  "successful_body out = Some envelope \<Longrightarrow>
     \<exists>code. out = Response code (Inr envelope) \<and> \<not> (400 \<le> code \<and> code < 600)"
  by (cases out rule: successful_body.cases) (auto split: if_splits)

lemma inner_text_try_body:
  assumes "inner_text out = Some t"
  shows "try_body depth out = (json_loads depth t, Some (JStr t))"
proof -
  from assms obtain envelope where b: "successful_body out = Some envelope"
    and t: "envelope_text envelope = Some t"
    unfolding inner_text_def by (auto simp: bind_eq_Some_conv)
  from b obtain code where "out = Response code (Inr envelope)" "\<not> (400 \<le> code \<and> code < 600)"
    using successful_bodyD by blast
  then show ?thesis
    using envelope_text_result_text [OF t]
    by (auto simp: try_body_def raise_for_status_def)
qed

lemma transport_failure_try_body:
  "transport_failure out \<Longrightarrow>
     \<exists>e b. try_body depth out = (Inl e, b) \<and> is_RequestException e"
  by (cases out) (auto simp: try_body_def raise_for_status_def)

lemma malformed_text_try_body:
  "malformed_text depth out \<Longrightarrow>
     \<exists>t. try_body depth out = (Inl JSONDecodeError, Some (JStr t)) \<and> \<not> has_surrogate t"
  by (auto simp: malformed_text_def inner_text_try_body split: option.splits)

lemma parses_to_try_body:
  "parses_to depth out v \<Longrightarrow> \<exists>b. try_body depth out = (Inr v, b)"
  by (auto simp: parses_to_def inner_text_try_body split: option.splits)

lemma retry_loop_returns:
  "retries < max_retries \<Longrightarrow> attempts tr = k \<Longrightarrow>
   try_body depth (transport k) = (Inr v, b) \<Longrightarrow>
     retry_loop depth transport retries delay tr = (Inr v, tr @ [Post])"
  by (subst retry_loop.simps) simp

lemma retry_loop_retries:
  "retries < max_retries \<Longrightarrow> attempts tr = k \<Longrightarrow>
   try_body depth (transport k) = (Inl e, b) \<Longrightarrow> is_RequestException e \<Longrightarrow>
   retries' = retries + 1 \<Longrightarrow> delay' = delay * 2 \<Longrightarrow> tr' = tr @ [Post, Sleep delay] \<Longrightarrow>
     retry_loop depth transport retries delay tr = retry_loop depth transport retries' delay' tr'"
  by (subst retry_loop.simps) simp

lemma retry_loop_parse_error:
  "retries < max_retries \<Longrightarrow> attempts tr = k \<Longrightarrow>
   try_body depth (transport k) = (Inl JSONDecodeError, Some (JStr t)) \<Longrightarrow>
   \<not> has_surrogate t \<Longrightarrow>
     retry_loop depth transport retries delay tr = (Inr parse_error_result, tr @ [Post])"
  by (subst retry_loop.simps) simp

lemma retry_loop_print_raises:
  "retries < max_retries \<Longrightarrow> attempts tr = k \<Longrightarrow>
   try_body depth (transport k) = (Inl JSONDecodeError, Some (JStr t)) \<Longrightarrow>
   has_surrogate t \<Longrightarrow>
     retry_loop depth transport retries delay tr = (Inl UnicodeEncodeError, tr @ [Post])"
  by (subst retry_loop.simps) simp

lemma retry_loop_raises:
  "retries < max_retries \<Longrightarrow> attempts tr = k \<Longrightarrow>
   try_body depth (transport k) = (Inl e, b) \<Longrightarrow>
   \<not> is_RequestException e \<Longrightarrow> \<not> is_JSONDecodeError e \<Longrightarrow>
     retry_loop depth transport retries delay tr = (Inl e, tr @ [Post])"
  by (subst retry_loop.simps) simp

lemma retry_loop_exhausted:
  "\<not> retries < max_retries \<Longrightarrow>
     retry_loop depth transport retries delay tr = (Inr connect_error_result, tr)"
  by (subst retry_loop.simps) simp

text \<open>The first three iterations, when the calls before them failed.\<close>

lemma second_iteration:
  assumes "\<exists>e b. try_body depth (tr 0) = (Inl e, b) \<and> is_RequestException e"
  shows "retry_loop depth tr 0 1 [] = retry_loop depth tr 1 2 [Post, Sleep 1]"
proof -
  from assms obtain e b where "try_body depth (tr 0) = (Inl e, b)" "is_RequestException e"
    by blast
  then show ?thesis
    by (rule retry_loop_retries [where k = 0, rotated 2])
      (simp_all add: max_retries_def attempts_def)
qed

lemma third_iteration:
  assumes "\<exists>e b. try_body depth (tr 1) = (Inl e, b) \<and> is_RequestException e"
  shows "retry_loop depth tr 1 2 [Post, Sleep 1] =
           retry_loop depth tr 2 4 [Post, Sleep 1, Post, Sleep 2]"
proof -
  from assms obtain e b where "try_body depth (tr 1) = (Inl e, b)" "is_RequestException e"
    by blast
  then show ?thesis
    by (rule retry_loop_retries [where k = 1, rotated 2])
      (simp_all add: max_retries_def attempts_def)
qed

lemma last_iteration:
  assumes "\<exists>e b. try_body depth (tr 2) = (Inl e, b) \<and> is_RequestException e"
  shows "retry_loop depth tr 2 4 [Post, Sleep 1, Post, Sleep 2] =
           (Inr connect_error_result, [Post, Sleep 1, Post, Sleep 2, Post, Sleep 4])"
proof -
  from assms obtain e b where "try_body depth (tr 2) = (Inl e, b)" "is_RequestException e"
    by blast
  then have "retry_loop depth tr 2 4 [Post, Sleep 1, Post, Sleep 2] =
               retry_loop depth tr 3 8 [Post, Sleep 1, Post, Sleep 2, Post, Sleep 4]"
    by (rule retry_loop_retries [where k = 2, rotated 2])
      (simp_all add: max_retries_def attempts_def)
  then show ?thesis
    by (simp add: retry_loop_exhausted max_retries_def)
qed

lemma retry_exhaustedD:
  "retry_exhausted tr \<Longrightarrow> k < max_retries \<Longrightarrow> transport_failure (tr k)"
  by (simp add: retry_exhausted_def list_all_iff)

lemma all_failed:
  assumes "retry_exhausted tr"
  shows "retry_loop depth tr 0 1 [] =
           (Inr connect_error_result, [Post, Sleep 1, Post, Sleep 2, Post, Sleep 4])"
proof -
  have f: "transport_failure (tr 0)" "transport_failure (tr 1)" "transport_failure (tr 2)"
    using assms by (simp_all add: retry_exhaustedD max_retries_def)
  have "retry_loop depth tr 0 1 [] = retry_loop depth tr 1 2 [Post, Sleep 1]"
    by (intro second_iteration transport_failure_try_body f)
  also have "\<dots> = retry_loop depth tr 2 4 [Post, Sleep 1, Post, Sleep 2]"
    by (intro third_iteration transport_failure_try_body f)
  also have "\<dots> = (Inr connect_error_result, [Post, Sleep 1, Post, Sleep 2, Post, Sleep 4])"
    by (intro last_iteration transport_failure_try_body f)
  finally show ?thesis .
qed

text \<open>The loop reaches call \<open>k\<close> when the calls before it failed.\<close>

lemma reaches_attempt:
  assumes "k < max_retries" and "list_all (\<lambda>j. transport_failure (tr j)) [0..<k]"
  shows "\<exists>delay t. attempts t = k \<and> retry_loop depth tr 0 1 [] = retry_loop depth tr k delay t"
proof -
  have "k = 0 \<or> k = 1 \<or> k = 2"
    using assms(1) unfolding max_retries_def by arith
  then consider "k = 0" | "k = 1" | "k = 2"
    by blast
  then show ?thesis
  proof cases
    case 1
    have "attempts [] = 0" by (simp add: attempts_def)
    with 1 show ?thesis by blast
  next
    case 2
    with assms(2) have "transport_failure (tr 0)" by simp
    then have "retry_loop depth tr 0 1 [] = retry_loop depth tr 1 2 [Post, Sleep 1]"
      by (intro second_iteration transport_failure_try_body)
    moreover have "attempts [Post, Sleep 1] = 1" by (simp add: attempts_def)
    ultimately show ?thesis using 2 by blast
  next
    case 3
    with assms(2) have f: "transport_failure (tr 0)" "transport_failure (tr 1)"
      by (simp_all add: list_all_iff)
    have "retry_loop depth tr 0 1 [] = retry_loop depth tr 1 2 [Post, Sleep 1]"
      by (intro second_iteration transport_failure_try_body f)
    also have "\<dots> = retry_loop depth tr 2 4 [Post, Sleep 1, Post, Sleep 2]"
      by (intro third_iteration transport_failure_try_body f)
    finally have "retry_loop depth tr 0 1 [] =
        retry_loop depth tr 2 4 [Post, Sleep 1, Post, Sleep 2]" .
    moreover have "attempts [Post, Sleep 1, Post, Sleep 2] = 2" by (simp add: attempts_def)
    ultimately show ?thesis using 3 by blast
  qed
qed

lemma returns_at:
  assumes "k < max_retries" and "list_all (\<lambda>j. transport_failure (tr j)) [0..<k]"
    and "try_body depth (tr k) = (Inr v, b)"
  shows "fst (retry_loop depth tr 0 1 []) = Inr v"
proof -
  from reaches_attempt [OF assms(1,2)] obtain delay t where
    "attempts t = k" "retry_loop depth tr 0 1 [] = retry_loop depth tr k delay t" by blast
  then show ?thesis
    using retry_loop_returns [where retries = k and k = k and transport = tr and tr = t]
      assms(1,3) by simp
qed

lemma parse_error_at:
  assumes "malformed_at depth tr k"
  shows "fst (retry_loop depth tr 0 1 []) = Inr parse_error_result"
proof -
  from assms have k: "k < max_retries" and f: "list_all (\<lambda>j. transport_failure (tr j)) [0..<k]"
    and u: "malformed_text depth (tr k)"
    by (simp_all add: malformed_at_def)
  from malformed_text_try_body [OF u] obtain t where
    t: "try_body depth (tr k) = (Inl JSONDecodeError, Some (JStr t))" "\<not> has_surrogate t"
    by blast
  from reaches_attempt [OF k f] obtain delay tr' where
    "attempts tr' = k" "retry_loop depth tr 0 1 [] = retry_loop depth tr k delay tr'" by blast
  then show ?thesis
    using retry_loop_parse_error [where retries = k and k = k and transport = tr and tr = tr']
      k t by simp
qed

text \<open>What one call gives when the response is well-formed.\<close>

lemma well_formed_try_body:
  assumes "well_formed_response depth out"
  shows "(\<exists>e b. try_body depth out = (Inl e, b) \<and> is_RequestException e) \<or>
         (\<exists>t. try_body depth out = (Inl JSONDecodeError, Some (JStr t)) \<and> \<not> has_surrogate t) \<or>
         (\<exists>v b. parses_to depth out v \<and> try_body depth out = (Inr v, b))"
proof (cases "inner_text out")
  case None
  with assms have "transport_failure out"
    by (simp add: well_formed_response_def)
  then show ?thesis
    using transport_failure_try_body by blast
next
  case (Some t)
  with assms have "transport_failure out \<or> decodes_or_malformed depth t"
    by (simp add: well_formed_response_def)
  then show ?thesis
  proof
    assume "transport_failure out"
    then show ?thesis
      using transport_failure_try_body by blast
  next
    assume "decodes_or_malformed depth t"
    then show ?thesis
      using Some
      by (cases "json_loads depth t")
        (auto simp: decodes_or_malformed_def parses_to_def inner_text_try_body)
  qed
qed

text \<open>
  Over well-formed responses the loop returns a value: one of the two results it builds
  itself, or what an inner text decodes to.
\<close>

lemma well_formed_loop:
  shows "\<forall>k<max_retries. well_formed_response depth (tr k) \<Longrightarrow> attempts t = retries \<Longrightarrow>
     \<exists>v. fst (retry_loop depth tr retries delay t) = Inr v \<and>
       (v = connect_error_result \<or> v = parse_error_result \<or>
        (\<exists>k<max_retries. parses_to depth (tr k) v))"
proof (induction depth tr retries delay t rule: retry_loop.induct)
  case (1 depth transport retries delay tr)
  show ?case
  proof (cases "retries < max_retries")
    case False
    then show ?thesis
      by (simp add: retry_loop_exhausted)
  next
    case True
    with "1.prems" have "well_formed_response depth (transport retries)"
      by blast
    then consider
      (fails) e b where "try_body depth (transport retries) = (Inl e, b)" "is_RequestException e"
      | (malformed) t where
          "try_body depth (transport retries) = (Inl JSONDecodeError, Some (JStr t))"
          "\<not> has_surrogate t"
      | (parsed) v b where "parses_to depth (transport retries) v"
          "try_body depth (transport retries) = (Inr v, b)"
      using well_formed_try_body by blast
    then show ?thesis
    proof cases
      case fails
      have att: "attempts (tr @ [Post, Sleep delay]) = retries + 1"
        using "1.prems"(2) by (simp add: attempts_def)
      have tb: "(Inl e, b) = try_body depth (transport (attempts tr))"
        using fails(1) "1.prems"(2) by simp
      from "1.IH" [OF True tb refl fails(2) "1.prems"(1) att]
      have "\<exists>v. fst (retry_loop depth transport (retries + 1) (delay * 2)
                  (tr @ [Post, Sleep delay])) = Inr v \<and>
              (v = connect_error_result \<or> v = parse_error_result \<or>
               (\<exists>k<max_retries. parses_to depth (transport k) v))" .
      moreover have "retry_loop depth transport retries delay tr =
          retry_loop depth transport (retries + 1) (delay * 2) (tr @ [Post, Sleep delay])"
        using retry_loop_retries [where k = retries and transport = transport and e = e]
          True "1.prems"(2) fails by simp
      ultimately show ?thesis by simp
    next
      case malformed
      then show ?thesis
        using retry_loop_parse_error [where k = retries and transport = transport]
          True "1.prems"(2) by simp
    next
      case parsed
      then show ?thesis
        using retry_loop_returns [where k = retries and transport = transport]
          True "1.prems"(2) by auto
    qed
  qed
qed

lemma list_ex_attempt:
  "k < max_retries \<Longrightarrow> P k \<Longrightarrow> list_ex P [0..<max_retries]"
  by (auto simp: list_ex_iff)

lemma sentinels_are_diagnosis_results:
  "is_diagnosis_result connect_error_result \<and> exactly_five_fields connect_error_result \<and>
   is_diagnosis_result parse_error_result \<and> exactly_five_fields parse_error_result"
  by (simp add: is_diagnosis_result_def connect_error_result_def parse_error_result_def
      diagnosis_result_fields_def present_and_non_null_def)

lemma well_formed_returns:
  assumes "well_formed_transport depth tr"
  shows "\<exists>v. fst (retry_loop depth tr 0 1 []) = Inr v \<and>
           (v = connect_error_result \<or> v = parse_error_result \<or>
            list_ex (\<lambda>k. parses_to depth (tr k) v) [0..<max_retries])"
proof -
  from assms have "\<forall>k<max_retries. well_formed_response depth (tr k)"
    by (simp add: well_formed_transport_def list_all_iff)
  moreover have "attempts [] = 0"
    by (simp add: attempts_def)
  ultimately obtain v where "fst (retry_loop depth tr 0 1 []) = Inr v"
    and "v = connect_error_result \<or> v = parse_error_result \<or>
         (\<exists>k<max_retries. parses_to depth (tr k) v)"
    using well_formed_loop [of depth tr "[]" 0 1] by blast
  then show ?thesis
    by (auto intro: list_ex_attempt)
qed

text \<open>
  Two inner texts on which \<^verbatim>\<open>json.loads\<close> raises an exception that is no
  \<^verbatim>\<open>json.JSONDecodeError\<close>: more open brackets than the interpreter has recursion depth
  left, and an integer literal of more than 4300 digits. Neither \<^verbatim>\<open>except\<close> clause
  matches, and the function raises after one call.
\<close>

lemma open_brackets_scan:
  "2 * depth + 1 \<le> n \<Longrightarrow>
     scan_once n depth (replicate (Suc depth) (CHR ''['') @ rest) = Inl RecursionError"
proof (induction depth arbitrary: n)
  case 0
  then obtain n' where "n = Suc n'"
    by (cases n) auto
  then show ?case
    by simp
next
  case (Suc depth)
  then obtain n' where n: "n = Suc (Suc n')" and "2 * depth + 1 \<le> n'"
    by (cases n; cases "n - 1") auto
  then have "scan_once n' depth (replicate (Suc depth) (CHR ''['') @ rest) = Inl RecursionError"
    using Suc.IH by blast
  then show ?case
    using n by (simp add: skip_ws_def is_ws_def)
qed

lemma open_brackets_raise_RecursionError:
  "json_loads depth (replicate (Suc depth) (CHR ''['') @ rest) = Inl RecursionError"
proof -
  have "skip_ws (replicate (Suc depth) (CHR ''['') @ rest) =
      replicate (Suc depth) (CHR ''['') @ rest"
    by (simp add: skip_ws_def is_ws_def)
  moreover have "scan_once (2 * length (replicate (Suc depth) (CHR ''['') @ rest) + 2) depth
      (replicate (Suc depth) (CHR ''['') @ rest) = Inl RecursionError"
    by (rule open_brackets_scan) simp
  ultimately show ?thesis
    by (simp add: json_loads_def)
qed

lemma deep_nesting_raises_RecursionError:
  assumes "inner_text (transport symptoms_input 0) =
             Some (replicate (Suc depth) (CHR ''['') @ rest)"
  shows "predict_disease_with_gemini depth transport symptoms_input =
           (Inl RecursionError, [Post])"
proof -
  have "try_body depth (transport symptoms_input 0) =
      (Inl RecursionError, Some (JStr (replicate (Suc depth) (CHR ''['') @ rest)))"
    using inner_text_try_body [OF assms, of depth] open_brackets_raise_RecursionError
    by simp
  then have "retry_loop depth (transport symptoms_input) 0 1 [] =
      (Inl RecursionError, [] @ [Post])"
    by (intro retry_loop_raises [where k = 0]) (simp_all add: max_retries_def attempts_def)
  then show ?thesis
    by (simp add: predict_disease_with_gemini_def)
qed

lemma long_integer_raises_ValueError:
  assumes "int_max_str_digits < n"
  shows "json_loads depth (replicate n (CHR ''1'')) = Inl ValueError"
proof -
  from assms obtain k where n: "n = Suc k"
    by (cases n) auto
  have d: "is_digit (CHR ''1'')"
    by (simp add: is_digit_def)
  have "match_number (replicate n (CHR ''1'')) = Inl ValueError"
    using assms d
    by (simp add: n match_number_def scan_fraction_def scan_exponent_def Let_def)
  then have "scan_atom (replicate n (CHR ''1'')) = Inl ValueError"
    by (simp add: n scan_atom_def)
  then have "scan_once (Suc m) depth (replicate n (CHR ''1'')) = Inl ValueError" for m
    by (simp add: n)
  then have "scan_once (2 * n + 2) depth (replicate n (CHR ''1'')) = Inl ValueError"
    by (metis add_2_eq_Suc')
  moreover have "skip_ws (replicate n (CHR ''1'')) = replicate n (CHR ''1'')"
    by (simp add: n skip_ws_def is_ws_def)
  ultimately show ?thesis
    by (simp add: json_loads_def)
qed

lemma long_integer_raises:
  assumes "inner_text (transport symptoms_input 0) = Some (replicate n (CHR ''1''))"
    and "int_max_str_digits < n"
  shows "predict_disease_with_gemini depth transport symptoms_input =
           (Inl ValueError, [Post])"
proof -
  have "try_body depth (transport symptoms_input 0) =
      (Inl ValueError, Some (JStr (replicate n (CHR ''1''))))"
    using inner_text_try_body [OF assms(1), of depth]
      long_integer_raises_ValueError [OF assms(2)]
    by simp
  then have "retry_loop depth (transport symptoms_input) 0 1 [] =
      (Inl ValueError, [] @ [Post])"
    by (intro retry_loop_raises [where k = 0]) (simp_all add: max_retries_def attempts_def)
  then show ?thesis
    by (simp add: predict_disease_with_gemini_def)
qed

section \<open>The claims\<close>

text \<open>
  C1. \<^verbatim>\<open>predict_disease_with_gemini\<close> never raises to its caller: every failure mode,
  a present but empty candidates list included, becomes a returned sentinel with
  \<^verbatim>\<open>predicted_disease = "Error"\<close>, as the docstring promises (an error dictionary when
  no data is found). The code misses the case: on a response whose candidates list is
  empty, \<^verbatim>\<open>[0]\<close> raises \<^verbatim>\<open>IndexError\<close>, which neither \<^verbatim>\<open>except\<close> clause matches. The
  function raises after one call, and the handler answers with status 500.
\<close>

theorem empty_candidates_raises_IndexError:
  "predict_disease_with_gemini depth empty_candidates_transport fever_and_headache =
     (Inl IndexError, [Post]) \<and>
   post_predict depth empty_candidates_transport fever_request =
     \<lparr>status_code = 500, json_body = None\<rparr>"
proof -
  have "try_body depth (empty_candidates_transport s 0) = (Inl IndexError, None)" for s
    by (simp add: try_body_def empty_candidates_transport_def raise_for_status_def
        result_text_def)
  then have "retry_loop depth (empty_candidates_transport s) 0 1 [] =
      (Inl IndexError, [] @ [Post])" for s
    by (intro retry_loop_raises [where k = 0]) (simp_all add: max_retries_def attempts_def)
  then show ?thesis
    by (simp add: predict_disease_with_gemini_def post_predict_def predict_def
        fever_request_def)
qed

text \<open>
  C2. A successful response whose envelope lacks the expected fields is read through
  the defaults and ends on the malformed-response path, with the description
  \<^verbatim>\<open>Failed to parse API response. ...\<close>. In the code the defaults end in the text
  \<^verbatim>\<open>'{}'\<close>, which \<^verbatim>\<open>json.loads\<close> decodes: on a response without candidates the function
  returns the empty dict, which is not the sentinel (wherever the interpreter can enter
  one more level of recursion).
\<close>

theorem blocked_prompt_returns_empty_dict:
  "predict_disease_with_gemini (Suc depth) blocked_prompt_transport fever_and_headache =
     (Inr (JObj []), [Post]) \<and> JObj [] \<noteq> parse_error_result"
proof -
  have "json_loads (Suc depth) ''{}'' = Inr (JObj [])"
    by code_simp
  then have "try_body (Suc depth) (blocked_prompt_transport s 0) =
      (Inr (JObj []), Some (JStr ''{}''))" for s
    by (simp add: try_body_def blocked_prompt_transport_def raise_for_status_def
        result_text_def)
  then have "retry_loop (Suc depth) (blocked_prompt_transport s) 0 1 [] =
      (Inr (JObj []), [] @ [Post])" for s
    by (intro retry_loop_returns [where k = 0]) (simp_all add: max_retries_def attempts_def)
  then show ?thesis
    by (simp add: predict_disease_with_gemini_def parse_error_result_def)
qed




text \<open>
  C4. If the first call succeeds and the inner text of its envelope is not valid JSON,
  the function makes exactly 1 attempt and returns the sentinel with the description
  \<^verbatim>\<open>Failed to parse API response. The model may have returned an invalid format.\<close>
  The handler of the code prints the text before it returns the sentinel: on the
  inner text \<^verbatim>\<open>"\ud800 not json"\<close>, which \<^verbatim>\<open>json.loads\<close> rejects, the \<^verbatim>\<open>print\<close> raises
  \<^verbatim>\<open>UnicodeEncodeError\<close>, the function raises after one call and the handler answers
  with status 500.
\<close>

theorem surrogate_text_raises_UnicodeEncodeError:
  "unparseable depth (surrogate_transport fever_and_headache 0) \<and>
   predict_disease_with_gemini depth surrogate_transport fever_and_headache =
     (Inl UnicodeEncodeError, [Post]) \<and>
   post_predict depth surrogate_transport fever_request =
     \<lparr>status_code = 500, json_body = None\<rparr>"
proof -
  have t: "inner_text (surrogate_transport s 0) = Some surrogate_text" for s
    by code_simp
  have j: "json_loads depth surrogate_text = Inl JSONDecodeError"
    by code_simp
  have p: "has_surrogate surrogate_text"
    by code_simp
  have "retry_loop depth (surrogate_transport s) 0 1 [] =
      (Inl UnicodeEncodeError, [] @ [Post])" for s
    by (rule retry_loop_print_raises [where k = 0 and t = surrogate_text])
      (simp_all add: max_retries_def attempts_def inner_text_try_body [OF t] j p)
  then show ?thesis
    by (simp add: predict_disease_with_gemini_def post_predict_def predict_def
        fever_request_def unparseable_def t j)
qed

text \<open>
  The same path on an inner text that \<^verbatim>\<open>json.loads\<close> rejects and that can be printed:
  one attempt, no sleep, the sentinel.
\<close>

lemma malformed_text_is_not_retried:
  assumes "malformed_text depth (transport symptoms_input 0)"
  shows "predict_disease_with_gemini depth transport symptoms_input =
           (Inr parse_error_result, [Post]) \<and>
         field parse_error_result ''description'' =
           Some (JStr ''Failed to parse API response. The model may have returned an invalid format.'')"
proof -
  from malformed_text_try_body [OF assms] obtain t where
    "try_body depth (transport symptoms_input 0) = (Inl JSONDecodeError, Some (JStr t))"
    "\<not> has_surrogate t"
    by blast
  then have "retry_loop depth (transport symptoms_input) 0 1 [] =
      (Inr parse_error_result, [] @ [Post])"
    by (intro retry_loop_parse_error [where k = 0 and t = t])
      (simp_all add: max_retries_def attempts_def)
  then show ?thesis
    by (simp add: predict_disease_with_gemini_def parse_error_result_def)
qed




text \<open>
  C6. If the response of the first call that does not fail is a well-formed envelope
  whose inner text decodes to \<open>v\<close>, the function returns exactly \<open>v\<close>: what
  \<^verbatim>\<open>json.loads\<close> gave, with nothing added, removed, reordered or rewritten.
\<close>

theorem parsed_object_is_passed_through:
  assumes "k < max_retries"
    and "list_all (\<lambda>j. transport_failure (transport symptoms_input j)) [0..<k]"
    and "parses_to depth (transport symptoms_input k) v"
  shows "fst (predict_disease_with_gemini depth transport symptoms_input) = Inr v"
proof -
  from parses_to_try_body [OF assms(3)] obtain b where
    "try_body depth (transport symptoms_input k) = (Inr v, b)"
    by blast
  from returns_at [OF assms(1,2) this] show ?thesis
    by (simp add: predict_disease_with_gemini_def)
qed

theorem parsed_object_is_passed_through_witness:
  "0 < max_retries \<and>
   list_all (\<lambda>j. transport_failure (common_cold_transport fever_and_headache j)) [0..<0] \<and>
   parses_to python_depth (common_cold_transport fever_and_headache 0) common_cold \<and>
   fst (predict_disease_with_gemini python_depth common_cold_transport fever_and_headache) =
     Inr common_cold"
proof -
  have h0: "0 < max_retries"
    by (simp add: max_retries_def)
  have h1: "list_all (\<lambda>j. transport_failure (common_cold_transport fever_and_headache j)) [0..<0]"
    by simp
  have h2: "parses_to python_depth (common_cold_transport fever_and_headache 0) common_cold"
    by code_simp
  from parsed_object_is_passed_through
    [of 0 common_cold_transport fever_and_headache python_depth common_cold] h0 h1 h2
  show ?thesis
    by simp
qed

text \<open>
  C7. The specification states that every returned value is a DiagnosisResult with its
  five fields present and not null and, unless \<^verbatim>\<open>predicted_disease\<close> is \<^verbatim>\<open>"Error"\<close>,
  at most four precautions and four home remedies. The code checks nothing in what the
  model wrote: an inner text with five precautions is returned as it is.
\<close>

theorem five_precautions_counterexample:
  "\<not> returns_diagnosis_result
       (fst (predict_disease_with_gemini python_depth five_precautions_transport
          fever_and_headache))"
  by code_simp

text \<open>
  C7, as the code has it: when every call either fails in the transport (connection
  error, timeout, status 400 to 599) or answers with a well-formed envelope whose inner
  text \<^verbatim>\<open>json.loads\<close> decodes, or rejects as not valid JSON while the text can be
  printed, the function returns a value, and this value is either one of its own two
  sentinels (the five fields present and not null, \<^verbatim>\<open>predicted_disease = "Error"\<close>,
  both lists empty) or exactly what the inner text of a response decodes to, passed
  through unchecked.
\<close>

theorem returns_sentinel_or_decoded_text:
  assumes "well_formed_transport depth (transport symptoms_input)"
  shows "\<exists>v. fst (predict_disease_with_gemini depth transport symptoms_input) = Inr v \<and>
           (is_diagnosis_result v \<and> field v ''predicted_disease'' = Some (JStr ''Error'') \<or>
            list_ex (\<lambda>k. parses_to depth (transport symptoms_input k) v) [0..<max_retries])"
proof -
  from well_formed_returns [OF assms] obtain v where
    r: "fst (retry_loop depth (transport symptoms_input) 0 1 []) = Inr v"
    and v: "v = connect_error_result \<or> v = parse_error_result \<or>
            list_ex (\<lambda>k. parses_to depth (transport symptoms_input k) v) [0..<max_retries]"
    by blast
  have "field connect_error_result ''predicted_disease'' = Some (JStr ''Error'')"
    "field parse_error_result ''predicted_disease'' = Some (JStr ''Error'')"
    by (simp_all add: connect_error_result_def parse_error_result_def)
  with r v sentinels_are_diagnosis_results show ?thesis
    unfolding predict_disease_with_gemini_def by blast
qed

theorem returns_sentinel_or_decoded_text_witness:
  "well_formed_transport python_depth (five_precautions_transport fever_and_headache) \<and>
   (\<exists>v. fst (predict_disease_with_gemini python_depth five_precautions_transport
            fever_and_headache) = Inr v \<and>
      (is_diagnosis_result v \<and> field v ''predicted_disease'' = Some (JStr ''Error'') \<or>
       list_ex (\<lambda>k. parses_to python_depth (five_precautions_transport fever_and_headache k) v)
         [0..<max_retries]))"
proof -
  have h: "well_formed_transport python_depth (five_precautions_transport fever_and_headache)"
    by code_simp
  from returns_sentinel_or_decoded_text
    [of python_depth five_precautions_transport fever_and_headache] h
  show ?thesis
    by simp
qed

text \<open>
  C8. The specification states that on the error paths the \<^verbatim>\<open>language\<close> field of the
  sentinel is absent or empty. Both sentinels of the code carry
  \<^verbatim>\<open>"language": "English"\<close>.
\<close>

theorem error_language_counterexample:
  "fst (predict_disease_with_gemini python_depth refusing_transport fever_and_headache) =
     Inr connect_error_result \<and>
   \<not> language_absent_or_empty connect_error_result"
  by code_simp

text \<open>
  C8, as the code has it: on both error paths on which the function returns (every
  attempt failed in the transport; or the first response that did not fail has an inner
  text that \<^verbatim>\<open>json.loads\<close> rejects as not valid JSON and that can be printed) it
  returns a sentinel whose \<^verbatim>\<open>language\<close> field is the string \<^verbatim>\<open>English\<close>.
\<close>

theorem error_paths_answer_in_English:
  assumes "retry_exhausted (transport symptoms_input) \<or>
           malformed_response depth (transport symptoms_input)"
  shows "\<exists>v. fst (predict_disease_with_gemini depth transport symptoms_input) = Inr v \<and>
           field v ''predicted_disease'' = Some (JStr ''Error'') \<and>
           field v ''language'' = Some (JStr ''English'')"
proof -
  from assms consider "retry_exhausted (transport symptoms_input)"
    | k where "malformed_at depth (transport symptoms_input) k"
    by (auto simp: malformed_response_def list_ex_iff)
  then have "fst (retry_loop depth (transport symptoms_input) 0 1 []) =
               Inr connect_error_result \<or>
             fst (retry_loop depth (transport symptoms_input) 0 1 []) =
               Inr parse_error_result"
  proof cases
    case 1
    then show ?thesis using all_failed [of _ depth] by simp
  next
    case 2
    then show ?thesis using parse_error_at by simp
  qed
  then show ?thesis
    by (auto simp: predict_disease_with_gemini_def connect_error_result_def parse_error_result_def)
qed

theorem error_paths_answer_in_English_witness:
  "malformed_response python_depth (prose_transport fever_and_headache) \<and>
   (\<exists>v. fst (predict_disease_with_gemini python_depth prose_transport fever_and_headache) =
           Inr v \<and>
      field v ''predicted_disease'' = Some (JStr ''Error'') \<and>
      field v ''language'' = Some (JStr ''English''))"
proof -
  have h: "malformed_response python_depth (prose_transport fever_and_headache)"
    by code_simp
  from error_paths_answer_in_English [of prose_transport fever_and_headache python_depth] h
  show ?thesis
    by simp
qed

text \<open>
  C9. The specification states that \<^verbatim>\<open>POST /predict\<close> with a string \<^verbatim>\<open>symptoms\<close> field
  is always answered with status 200 and a body of exactly the five fields. The handler
  sends whatever the diagnosis call returned: an inner text with one field gives a body
  with one field.
\<close>

theorem one_field_body_counterexample:
  "\<not> ok_with_five_fields (post_predict python_depth one_field_transport fever_request)"
  by code_simp

text \<open>
  C9, as the code has it: for a request whose body is an object with a string
  \<^verbatim>\<open>symptoms\<close> field, when every call either fails in the transport or answers with a
  well-formed envelope whose inner text \<^verbatim>\<open>json.loads\<close> decodes, or rejects as not valid
  JSON while the text can be printed, the handler answers with status 200 and, as its
  body, the value that the diagnosis call returned: a sentinel with exactly the five
  fields on the error paths, or what the inner text of a response decodes to, whatever
  its fields.
\<close>

theorem predict_answers_200_with_the_result:
  assumes "field request_json ''symptoms'' = Some (JStr symptoms)"
    and "well_formed_transport depth (transport (JStr symptoms))"
  shows "\<exists>v. post_predict depth transport request_json =
             \<lparr>status_code = 200, json_body = Some v\<rparr> \<and>
           fst (predict_disease_with_gemini depth transport (JStr symptoms)) = Inr v \<and>
           (exactly_five_fields v \<and> field v ''predicted_disease'' = Some (JStr ''Error'') \<or>
            list_ex (\<lambda>k. parses_to depth (transport (JStr symptoms) k) v) [0..<max_retries])"
proof -
  from well_formed_returns [OF assms(2)] obtain v where
    r: "fst (predict_disease_with_gemini depth transport (JStr symptoms)) = Inr v"
    and v: "v = connect_error_result \<or> v = parse_error_result \<or>
            list_ex (\<lambda>k. parses_to depth (transport (JStr symptoms) k) v) [0..<max_retries]"
    unfolding predict_disease_with_gemini_def by blast
  have "py_get request_json ''symptoms'' JNull = Inr (JStr symptoms)"
    using assms(1) by (rule field_get)
  with r have "post_predict depth transport request_json =
      \<lparr>status_code = 200, json_body = Some v\<rparr>"
    by (simp add: post_predict_def predict_def)
  moreover have "field connect_error_result ''predicted_disease'' = Some (JStr ''Error'')"
    "field parse_error_result ''predicted_disease'' = Some (JStr ''Error'')"
    by (simp_all add: connect_error_result_def parse_error_result_def)
  ultimately show ?thesis
    using r v sentinels_are_diagnosis_results by blast
qed

theorem predict_answers_200_with_the_result_witness:
  "field fever_request ''symptoms'' = Some (JStr ''fever and headache'') \<and>
   well_formed_transport python_depth (one_field_transport (JStr ''fever and headache'')) \<and>
   (\<exists>v. post_predict python_depth one_field_transport fever_request =
           \<lparr>status_code = 200, json_body = Some v\<rparr> \<and>
         fst (predict_disease_with_gemini python_depth one_field_transport
           (JStr ''fever and headache'')) = Inr v \<and>
         (exactly_five_fields v \<and> field v ''predicted_disease'' = Some (JStr ''Error'') \<or>
          list_ex (\<lambda>k. parses_to python_depth (one_field_transport (JStr ''fever and headache'') k) v)
            [0..<max_retries]))"
proof -
  have h1: "field fever_request ''symptoms'' = Some (JStr ''fever and headache'')"
    by (simp add: fever_request_def)
  have h2: "well_formed_transport python_depth (one_field_transport (JStr ''fever and headache''))"
    by code_simp
  from predict_answers_200_with_the_result
    [of fever_request "''fever and headache''" python_depth one_field_transport] h1 h2
  show ?thesis
    by simp
qed

text \<open>
  C10. When every attempt fails, the function also sleeps after the third and last
  attempt, for 4: it returns the sentinel after sleeping 1 + 2 + 4 in total.
\<close>

theorem sleeps_after_the_last_attempt:
  assumes "retry_exhausted (transport symptoms_input)"
  shows "snd (predict_disease_with_gemini depth transport symptoms_input) =
           [Post, Sleep 1, Post, Sleep 2, Post, Sleep 4] \<and>
         last (snd (predict_disease_with_gemini depth transport symptoms_input)) = Sleep 4 \<and>
         sleeps (snd (predict_disease_with_gemini depth transport symptoms_input)) = [1, 2, 4] \<and>
         sum_list (sleeps (snd (predict_disease_with_gemini depth transport symptoms_input))) =
           1 + 2 + 4"
  using all_failed [OF assms, of depth]
  by (simp add: predict_disease_with_gemini_def)

theorem sleeps_after_the_last_attempt_witness:
  "retry_exhausted (failing_transport fever_and_headache) \<and>
   snd (predict_disease_with_gemini python_depth failing_transport fever_and_headache) =
     [Post, Sleep 1, Post, Sleep 2, Post, Sleep 4] \<and>
   sum_list (sleeps (snd (predict_disease_with_gemini python_depth failing_transport
     fever_and_headache))) = 7"
proof -
  have h: "retry_exhausted (failing_transport fever_and_headache)"
    by code_simp
  from sleeps_after_the_last_attempt [of failing_transport fever_and_headache python_depth] h
  show ?thesis
    by simp
qed

end
